theory Spec2Isabelle
  imports Main
begin

section \<open>Values shared by the services\<close>

text \<open>
  A JavaScript property is absent (\<open>undefined\<close>), \<open>null\<close> or holds a value. The services
  tell the three apart without saying so: a falsy test treats \<open>undefined\<close>, \<open>null\<close> and
  the empty string alike, \<open>JSON.stringify\<close> drops an \<open>undefined\<close> property and keeps a
  \<open>null\<close> one, and a template literal prints \<open>undefined\<close> as text. A nullable column
  of the database is an \<open>option\<close>, \<open>None\<close> being SQL \<open>NULL\<close>.
\<close>

datatype 'a js = Undefined | Null | Val 'a

fun falsy :: "string js \<Rightarrow> bool" where
  "falsy Undefined = True"
| "falsy Null = True"
| "falsy (Val s) = (s = [])"

fun from_column :: "'a option \<Rightarrow> 'a js" where
  "from_column None = Null"
| "from_column (Some v) = Val v"

text \<open>
  A body key sent with \<open>JSON.stringify\<close>: an \<open>undefined\<close> property is not in the body, so
  the column keeps what it has; \<open>null\<close> writes \<open>NULL\<close>.
\<close>

fun write_column :: "'a js \<Rightarrow> 'a option \<Rightarrow> 'a option" where
  "write_column Undefined old = old"
| "write_column Null old = None"
| "write_column (Val v) old = Some v"

text \<open>A filter value as postgrest-js prints it into the request (\<open>`eq.${value}`\<close>).\<close>

fun wire_text :: "string js \<Rightarrow> string" where
  "wire_text Undefined = ''undefined''"
| "wire_text Null = ''null''"
| "wire_text (Val s) = s"

datatype error =
    PostgrestError string
  | StorageError string
  | Error string
  | TypeError string

fun message :: "error \<Rightarrow> string" where
  "message (PostgrestError m) = m"
| "message (StorageError m) = m"
| "message (Error m) = m"
| "message (TypeError m) = m"

section \<open>The triggers (SQL)\<close>

text \<open>
  \<open>inject_user_id\<close> is one function for every table with a \<open>user_id\<close> column; the rest of
  the row is the extension of the record.
\<close>

record owned =
  user_id :: "string option"

definition inject_user_id :: "string option \<Rightarrow> 'a owned_scheme \<Rightarrow> 'a owned_scheme" where
  "inject_user_id auth_uid new =
     (if user_id new = None then new\<lparr>user_id := auth_uid\<rparr> else new)"

datatype trigger_timing = Before | After
datatype trigger_level = For_each_row | For_each_statement

text \<open>
  A \<open>create trigger\<close> statement as it is written: \<open>for_each\<close> is \<open>None\<close> where the
  statement has no \<open>for each\<close> clause.
\<close>

record trigger =
  tg_name :: string
  tg_when :: trigger_timing
  tg_table :: string
  for_each :: "trigger_level option"
  tg_procedure :: string

definition on_user_created_create_profile :: trigger where
  "on_user_created_create_profile =
     \<lparr>tg_name = ''on_user_created_create_profile'', tg_when = After,
      tg_table = ''auth.users'', for_each = Some For_each_row,
      tg_procedure = ''public.handle_new_user''\<rparr>"

definition on_vote_insert_inject_user_id :: trigger where
  "on_vote_insert_inject_user_id =
     \<lparr>tg_name = ''on_vote_insert_inject_user_id'', tg_when = Before,
      tg_table = ''public.votes'', for_each = None,
      tg_procedure = ''public.inject_user_id''\<rparr>"

definition on_registration_insert_inject_user_id :: trigger where
  "on_registration_insert_inject_user_id =
     \<lparr>tg_name = ''on_registration_insert_inject_user_id'', tg_when = Before,
      tg_table = ''public.event_registrations'', for_each = None,
      tg_procedure = ''public.inject_user_id''\<rparr>"

definition triggers :: "trigger list" where
  "triggers =
     [on_user_created_create_profile, on_vote_insert_inject_user_id,
      on_registration_insert_inject_user_id]"

text \<open>
  PostgreSQL, \<open>CREATE TRIGGER\<close>: "If neither is specified, \<open>FOR EACH STATEMENT\<close> is the
  default."
\<close>

definition level :: "trigger \<Rightarrow> trigger_level" where
  "level t = (case for_each t of None \<Rightarrow> For_each_statement | Some l \<Rightarrow> l)"

definition run_procedure :: "string \<Rightarrow> string option \<Rightarrow> 'a owned_scheme \<Rightarrow> 'a owned_scheme" where
  "run_procedure p auth_uid new =
     (if p = ''public.inject_user_id'' then inject_user_id auth_uid new else new)"

text \<open>
  What a \<open>before insert\<close> trigger makes of the row about to be stored. A row-level trigger
  is called with the row as \<open>NEW\<close> and the row it returns is stored. A statement-level
  trigger is called once for the statement, \<open>NEW\<close> is null there and what the function
  returns is ignored: the row is stored as it came.
\<close>

definition fire_before_insert :: "string option \<Rightarrow> trigger \<Rightarrow> 'a owned_scheme \<Rightarrow> 'a owned_scheme" where
  "fire_before_insert auth_uid t new =
     (case level t of
        For_each_row \<Rightarrow> run_procedure (tg_procedure t) auth_uid new
      | For_each_statement \<Rightarrow> new)"

definition persisted :: "string \<Rightarrow> string option \<Rightarrow> 'a owned_scheme \<Rightarrow> 'a owned_scheme" where
  "persisted tbl auth_uid new =
     fold (fire_before_insert auth_uid)
       (filter (\<lambda>t. tg_table t = tbl \<and> tg_when t = Before) triggers) new"

section \<open>Interfaces of the services\<close>

text \<open>
  Field names carry a short prefix where two interfaces of the source share a name
  (\<open>id\<close>, \<open>title\<close>, \<open>description\<close>, \<open>email\<close>).
\<close>

record Group =
  g_id :: "int js"
  g_title :: string
  g_description :: string

record GroupPair =
  groupA :: Group
  groupB :: Group

text \<open>
  A date and time is the string the database sends for a \<open>timestamptz\<close>, or a
  \<open>Temporal.ZonedDateTime\<close>. Both denote an instant, in nanoseconds since the epoch; the
  second has a time zone.
\<close>

datatype datetime_value = Timestamptz int | ZonedDateTime int string

fun toInstant :: "datetime_value \<Rightarrow> int" where
  "toInstant (Timestamptz t) = t"
| "toInstant (ZonedDateTime t z) = t"

definition toZonedDateTimeISO :: "int \<Rightarrow> string \<Rightarrow> datetime_value" where
  "toZonedDateTimeISO t z = ZonedDateTime t z"

record event_registration = owned +
  reg_id :: int
  event_id :: int
  group_id :: "int option"
  present :: bool

text \<open>
  The objects the event queries return. \<open>event_group_pair\<close> and \<open>event_registrations\<close>
  are not in the interface \<open>EventInfo\<close>: they are keys that the select of
  \<open>fetchUserEvents\<close> asks for, and the object has them at run time.
\<close>

record EventInfo =
  ev_id :: int
  organizer :: string
  title :: string
  ev_description :: string
  header_image :: "string js"
  datetime :: datetime_value
  location :: string
  max_participants :: int
  event_groups :: "GroupPair js"
  is_ended :: bool
  is_cancelled :: bool
  event_group_pair :: "GroupPair js"
  event_registrations :: "event_registration list js"

type_synonym File = string

record EditEventInfo =
  ed_title :: string
  ed_description :: string
  ed_header_image :: "string js"
  ed_datetime :: datetime_value
  ed_location :: string
  ed_max_participants :: int
  headerImageFile :: "File js"
  uses_groups :: bool
  ed_event_groups :: "GroupPair js"

record Profile =
  email :: "string js"
  fullName :: "string js"
  description :: "string js"

record user =
  u_id :: string
  u_email :: "string js"

section \<open>The database and the requests sent to it\<close>

text \<open>
  A row of \<open>events\<close>. How the relation \<open>event_group_pairs\<close> links a pair of groups to
  an event is in SQL outside the sources; \<open>col_group_pair\<close> is the pair that the join
  finds for the row, \<open>None\<close> when there is none.
\<close>

record event_row =
  col_id :: int
  col_organizer :: string
  col_title :: string
  col_description :: string
  col_header_image :: "string option"
  col_datetime :: int
  col_location :: string
  col_max_participants :: int
  col_is_ended :: bool
  col_is_cancelled :: bool
  col_group_pair :: "GroupPair option"

record profile_row =
  pr_user_id :: string
  full_name :: "string option"
  pr_description :: "string option"
  pr_email :: "string option"

datatype lit = Text string | Number int | Boolean bool | Instant int | Sql_null

text \<open>\<open>Of r c\<close> is the dotted name \<open>r.c\<close>: a column of an embedded relation.\<close>

datatype column = Column string | Of string string

datatype operator = Eq | Gt | Not operator

datatype pg_filter = Filter operator column lit

text \<open>
  An embedded relation of a select: \<open>Embed a r\<close> is \<open>a:r(...)\<close>, the relation \<open>r\<close> under
  the key \<open>a\<close>; \<open>Inner r\<close> is \<open>r!inner(*)\<close>.
\<close>

datatype embed = Embed string string | Inner string

record query =
  q_from :: string
  q_columns :: string
  q_embed :: "embed list"
  q_filters :: "pg_filter list"
  q_order :: "(string \<times> bool) option"

record profile_patch =
  patch_full_name :: "string js"
  patch_description :: "string js"

record rpc_args =
  arg_title :: string
  arg_description :: string
  arg_header_image :: "string js"
  arg_datetime :: datetime_value
  arg_location :: string
  arg_max_participants :: int
  groupATitle :: string
  groupADescription :: string
  groupBTitle :: string
  groupBDescription :: string

datatype request =
    Select query
  | Select_count query
  | Update string profile_patch "pg_filter list"
  | Insert string EditEventInfo
  | Rpc string rpc_args
  | Upload string string File

record 'a reply =
  data :: "'a option"
  error :: "error option"

record count_reply =
  count :: "nat option"
  count_error :: "error option"

record upload_data =
  Key :: string

text \<open>
  Everything the services read and write: the auth store, the tables, the storage bucket,
  the clock, the notifications shown, and the network. \<open>requests\<close> lists the calls sent so
  far, oldest first. \<open>faults\<close> says how the coming calls end: the head is for the next
  call, \<open>Some e\<close> when it fails with \<open>e\<close>, \<open>None\<close> when the server answers it; an empty
  list means no call fails any more.
\<close>

record world =
  auth_user :: "user option"
  auth_profile :: "Profile option"
  db_events :: "event_row list"
  db_registrations :: "event_registration list"
  db_profiles :: "profile_row list"
  objects :: "(string \<times> File) list"
  requests :: "request list"
  faults :: "error option list"
  clock :: int
  time_zone :: string
  toasts :: "string list"

definition remote :: "request \<Rightarrow> world \<Rightarrow> error option \<times> world" where
  "remote rq w =
     (case faults w of
        [] \<Rightarrow> (None, w\<lparr>requests := requests w @ [rq]\<rparr>)
      | f # fs \<Rightarrow> (f, w\<lparr>requests := requests w @ [rq], faults := fs\<rparr>))"

definition failed :: "error \<Rightarrow> 'a reply" where
  "failed e = \<lparr>data = None, error = Some e\<rparr>"

subsection \<open>Filters\<close>

text \<open>
  A comparison of SQL is true, false or unknown (\<open>None\<close>): a \<open>NULL\<close> operand makes it
  unknown, and so does its negation. A row is kept when the comparison is true.
\<close>

fun sql_test :: "operator \<Rightarrow> lit \<Rightarrow> lit \<Rightarrow> bool option" where
  "sql_test Eq x v = (if x = Sql_null \<or> v = Sql_null then None else Some (x = v))"
| "sql_test Gt (Instant a) (Instant b) = Some (b < a)"
| "sql_test Gt (Number a) (Number b) = Some (b < a)"
| "sql_test Gt x v = None"
| "sql_test (Not p) x v = map_option (\<lambda>b. \<not> b) (sql_test p x v)"

fun of_text :: "string option \<Rightarrow> lit" where
  "of_text None = Sql_null"
| "of_text (Some s) = Text s"

fun of_number :: "int option \<Rightarrow> lit" where
  "of_number None = Sql_null"
| "of_number (Some n) = Number n"

definition events_column :: "string \<Rightarrow> (event_row \<Rightarrow> lit) option" where
  "events_column =
     map_of
       [(''id'', \<lambda>r. Number (col_id r)),
        (''organizer'', \<lambda>r. Text (col_organizer r)),
        (''title'', \<lambda>r. Text (col_title r)),
        (''description'', \<lambda>r. Text (col_description r)),
        (''header_image'', \<lambda>r. of_text (col_header_image r)),
        (''datetime'', \<lambda>r. Instant (col_datetime r)),
        (''location'', \<lambda>r. Text (col_location r)),
        (''max_participants'', \<lambda>r. Number (col_max_participants r)),
        (''is_ended'', \<lambda>r. Boolean (col_is_ended r)),
        (''is_cancelled'', \<lambda>r. Boolean (col_is_cancelled r))]"

definition registrations_column :: "string \<Rightarrow> (event_registration \<Rightarrow> lit) option" where
  "registrations_column =
     map_of
       [(''id'', \<lambda>r. Number (reg_id r)),
        (''user_id'', \<lambda>r. of_text (user_id r)),
        (''event_id'', \<lambda>r. Number (event_id r)),
        (''group_id'', \<lambda>r. of_number (group_id r)),
        (''present'', \<lambda>r. Boolean (present r))]"

definition profiles_column :: "string \<Rightarrow> (profile_row \<Rightarrow> lit) option" where
  "profiles_column =
     map_of
       [(''user_id'', \<lambda>r. Text (pr_user_id r)),
        (''full_name'', \<lambda>r. of_text (full_name r)),
        (''description'', \<lambda>r. of_text (pr_description r)),
        (''email'', \<lambda>r. of_text (pr_email r))]"

text \<open>The filters on the table's own columns, and those on the columns of \<open>rel\<close>.\<close>

fun own :: "pg_filter \<Rightarrow> bool" where
  "own (Filter p (Column c) v) = True"
| "own (Filter p (Of r c) v) = False"

fun inside :: "string \<Rightarrow> pg_filter list \<Rightarrow> pg_filter list" where
  "inside rel [] = []"
| "inside rel (Filter p (Of r c) v # fs) =
     (if r = rel then Filter p (Column c) v # inside rel fs else inside rel fs)"
| "inside rel (Filter p (Column c) v # fs) = inside rel fs"

fun known :: "(string \<Rightarrow> ('r \<Rightarrow> lit) option) \<Rightarrow> pg_filter \<Rightarrow> bool" where
  "known cols (Filter p (Column c) v) = (case cols c of None \<Rightarrow> False | Some g \<Rightarrow> True)"
| "known cols (Filter p (Of r c) v) = False"

fun holds :: "(string \<Rightarrow> ('r \<Rightarrow> lit) option) \<Rightarrow> 'r \<Rightarrow> pg_filter \<Rightarrow> bool" where
  "holds cols r (Filter p (Column c) v) =
     (case cols c of None \<Rightarrow> False | Some g \<Rightarrow> sql_test p (g r) v = Some True)"
| "holds cols r (Filter p (Of rel c) v) = False"

definition maybeSingle :: "'a list \<Rightarrow> 'a reply" where
  "maybeSingle rows =
     (case rows of
        [] \<Rightarrow> \<lparr>data = None, error = None\<rparr>
      | [r] \<Rightarrow> \<lparr>data = Some r, error = None\<rparr>
      | r # r' # rs \<Rightarrow>
          failed (PostgrestError ''JSON object requested, multiple (or no) rows returned''))"

subsection \<open>Selecting events\<close>

definition registrations_of :: "query \<Rightarrow> world \<Rightarrow> event_row \<Rightarrow> event_registration list" where
  "registrations_of q w r =
     filter
       (\<lambda>g. event_id g = col_id r \<and>
            list_all (holds registrations_column g) (inside ''event_registrations'' (q_filters q)))
       (db_registrations w)"

definition put_key :: "string \<Rightarrow> GroupPair js \<Rightarrow> EventInfo \<Rightarrow> EventInfo" where
  "put_key k v j =
     (if k = ''event_groups'' then j\<lparr>event_groups := v\<rparr>
      else if k = ''event_group_pair'' then j\<lparr>event_group_pair := v\<rparr>
      else j)"

fun add_embed :: "query \<Rightarrow> world \<Rightarrow> event_row \<Rightarrow> embed \<Rightarrow> EventInfo \<Rightarrow> EventInfo" where
  "add_embed q w r (Embed k rel) j =
     (if rel = ''event_group_pairs'' then put_key k (from_column (col_group_pair r)) j else j)"
| "add_embed q w r (Inner rel) j =
     (if rel = ''event_registrations''
      then j\<lparr>event_registrations := Val (registrations_of q w r)\<rparr> else j)"

definition to_json :: "query \<Rightarrow> world \<Rightarrow> event_row \<Rightarrow> EventInfo" where
  "to_json q w r =
     fold (add_embed q w r) (q_embed q)
       \<lparr>ev_id = col_id r, organizer = col_organizer r, title = col_title r,
        ev_description = col_description r,
        header_image = from_column (col_header_image r),
        datetime = Timestamptz (col_datetime r), location = col_location r,
        max_participants = col_max_participants r, event_groups = Undefined,
        is_ended = col_is_ended r, is_cancelled = col_is_cancelled r,
        event_group_pair = Undefined, event_registrations = Undefined\<rparr>"

fun joined :: "query \<Rightarrow> world \<Rightarrow> event_row \<Rightarrow> embed \<Rightarrow> bool" where
  "joined q w r (Embed k rel) = True"
| "joined q w r (Inner rel) = (registrations_of q w r \<noteq> [])"

definition sort_column :: "string \<Rightarrow> (event_row \<Rightarrow> int) option" where
  "sort_column =
     map_of
       [(''id'', col_id), (''datetime'', col_datetime),
        (''max_participants'', col_max_participants)]"

fun order_rows :: "(string \<times> bool) option \<Rightarrow> event_row list \<Rightarrow> event_row list" where
  "order_rows None rows = rows"
| "order_rows (Some (c, ascending)) rows =
     (case sort_column c of
        None \<Rightarrow> rows
      | Some k \<Rightarrow> if ascending then sort_key k rows else rev (sort_key k rows))"

fun placed :: "pg_filter \<Rightarrow> bool" where
  "placed (Filter p (Column c) v) = True"
| "placed (Filter p (Of r c) v) = (r = ''event_registrations'')"

fun known_embed :: "embed \<Rightarrow> bool" where
  "known_embed (Embed k rel) = (rel = ''event_group_pairs'')"
| "known_embed (Inner rel) = (rel = ''event_registrations'')"

text \<open>
  What the server accepts: the table is \<open>events\<close>, every filter names a column of it or of
  the embedded registrations, every embedded relation is one of the two, and the order is
  by an integer column (the services order by \<open>datetime\<close> only). Anything else is answered
  with an error.
\<close>

definition accepted :: "query \<Rightarrow> bool" where
  "accepted q =
     (q_from q = ''events'' \<and>
      list_all (known events_column) (filter own (q_filters q)) \<and>
      list_all (known registrations_column) (inside ''event_registrations'' (q_filters q)) \<and>
      list_all placed (q_filters q) \<and>
      list_all known_embed (q_embed q) \<and>
      (case q_order q of
         None \<Rightarrow> True
       | Some (c, a) \<Rightarrow> (case sort_column c of None \<Rightarrow> False | Some k \<Rightarrow> True)))"

definition run_events_query :: "query \<Rightarrow> world \<Rightarrow> EventInfo list reply" where
  "run_events_query q w =
     (if \<not> accepted q then failed (PostgrestError ''bad request'')
      else
        \<lparr>data =
           Some
             (map (to_json q w)
                (order_rows (q_order q)
                   (filter
                      (\<lambda>r. list_all (holds events_column r) (filter own (q_filters q)) \<and>
                           list_all (joined q w r) (q_embed q))
                      (db_events w)))),
         error = None\<rparr>)"

definition select_events :: "query \<Rightarrow> world \<Rightarrow> EventInfo list reply \<times> world" where
  "select_events q w =
     (case remote (Select q) w of
        (Some e, w') \<Rightarrow> (failed e, w')
      | (None, w') \<Rightarrow> (run_events_query q w', w'))"

subsection \<open>Profiles, registrations, storage\<close>

definition select_profile :: "query \<Rightarrow> world \<Rightarrow> profile_row reply \<times> world" where
  "select_profile q w =
     (case remote (Select q) w of
        (Some e, w') \<Rightarrow> (failed e, w')
      | (None, w') \<Rightarrow>
          (if q_from q = ''profiles'' \<and> list_all (known profiles_column) (q_filters q)
           then maybeSingle (filter (\<lambda>r. list_all (holds profiles_column r) (q_filters q)) (db_profiles w'))
           else failed (PostgrestError ''bad request''),
           w'))"

definition apply_patch :: "profile_patch \<Rightarrow> profile_row \<Rightarrow> profile_row" where
  "apply_patch p r =
     r\<lparr>full_name := write_column (patch_full_name p) (full_name r),
       pr_description := write_column (patch_description p) (pr_description r)\<rparr>"

text \<open>
  \<open>update(...).match(...).maybeSingle()\<close>: the rows that match are updated and sent back;
  when more than one matches, the server answers with an error and undoes the update.
\<close>

definition update_profile :: "profile_patch \<Rightarrow> pg_filter list \<Rightarrow> world \<Rightarrow> profile_row reply \<times> world" where
  "update_profile p fs w =
     (case remote (Update ''profiles'' p fs) w of
        (Some e, w') \<Rightarrow> (failed e, w')
      | (None, w') \<Rightarrow>
          (if list_all (known profiles_column) fs
           then
             (let hit = (\<lambda>r. list_all (holds profiles_column r) fs);
                  r = maybeSingle (map (apply_patch p) (filter hit (db_profiles w')))
              in case error r of
                   Some e \<Rightarrow> (r, w')
                 | None \<Rightarrow>
                     (r, w'\<lparr>db_profiles :=
                              map (\<lambda>x. if hit x then apply_patch p x else x) (db_profiles w')\<rparr>))
           else (failed (PostgrestError ''bad request''), w')))"

text \<open>\<open>select("id", {count: "exact", head: true})\<close>: the number of rows, no rows.\<close>

definition count_rows :: "query \<Rightarrow> world \<Rightarrow> count_reply \<times> world" where
  "count_rows q w =
     (case remote (Select_count q) w of
        (Some e, w') \<Rightarrow> (\<lparr>count = None, count_error = Some e\<rparr>, w')
      | (None, w') \<Rightarrow>
          (if q_from q = ''event_registrations'' \<and>
              list_all (known registrations_column) (q_filters q)
           then
             \<lparr>count =
                Some (length
                  (filter (\<lambda>r. list_all (holds registrations_column r) (q_filters q))
                     (db_registrations w'))),
              count_error = None\<rparr>
           else \<lparr>count = None, count_error = Some (PostgrestError ''bad request'')\<rparr>,
           w'))"

text \<open>
  \<open>storage.from(bucket).upload(path, file)\<close>: the object is stored under the key
  \<open>bucket/path\<close>, which the reply returns; a key that is taken is refused.
\<close>

definition object_key :: "string \<Rightarrow> string \<Rightarrow> string" where
  "object_key bucket path = bucket @ ''/'' @ path"

definition upload :: "string \<Rightarrow> string \<Rightarrow> File \<Rightarrow> world \<Rightarrow> upload_data reply \<times> world" where
  "upload bucket path f w =
     (case remote (Upload bucket path f) w of
        (Some e, w') \<Rightarrow> (failed e, w')
      | (None, w') \<Rightarrow>
          (let key = object_key bucket path
           in if key \<in> set (map fst (objects w'))
              then (failed (StorageError ''The resource already exists''), w')
              else (\<lparr>data = Some \<lparr>Key = key\<rparr>, error = None\<rparr>,
                    w'\<lparr>objects := objects w' @ [(key, f)]\<rparr>)))"

section \<open>Helpers that are not among the sources\<close>

definition hour :: int where
  "hour = 3600000000000"

text \<open>
  Modelled from the spec: \<open>dateXHoursAgo\<close> of \<open>utils/datetime\<close>, a file that is not among
  the sources. The spec has the listing keep the events "with datetime later than one hour
  before now", and \<open>fetchEvents\<close> gets that bound from \<open>dateXHoursAgo(1)\<close>: the date and
  time \<open>x\<close> hours before the clock's.
\<close>

definition dateXHoursAgo :: "int \<Rightarrow> world \<Rightarrow> datetime_value" where
  "dateXHoursAgo x w = ZonedDateTime (clock w - x * hour) (time_zone w)"

text \<open>
  Modelled from the spec: \<open>timestamptzToTemporalZonedDateTime\<close> of \<open>utils/datetime\<close>, a
  file that is not among the sources. The spec: "datetime stored as
  timestamp-with-timezone, parsed client-side into a zoned date-time value".
\<close>

definition timestamptzToTemporalZonedDateTime :: "datetime_value \<Rightarrow> world \<Rightarrow> datetime_value" where
  "timestamptzToTemporalZonedDateTime d w = ZonedDateTime (toInstant d) (time_zone w)"

text \<open>
  Modelled from the spec: \<open>errorToast\<close>, which \<open>eventService.ts\<close> calls and no source
  file defines. The spec: the error is surfaced "to the caller (and a user-facing
  notification)".
\<close>

definition errorToast :: "string \<Rightarrow> world \<Rightarrow> world" where
  "errorToast m w = w\<lparr>toasts := toasts w @ [m]\<rparr>"

text \<open>
  Modelled from the spec: \<open>setProfileStore\<close> of the auth store (\<open>stores/auth\<close>), a file
  that is not among the sources. The spec: \<open>updateProfile\<close> "pushes the updated profile
  into the shared auth/profile state".
\<close>

definition setProfileStore :: "Profile \<Rightarrow> world \<Rightarrow> world" where
  "setProfileStore p w = w\<lparr>auth_profile := Some p\<rparr>"

section \<open>The event service\<close>

text \<open>\<open>authStore.user?.id\<close>\<close>

definition user_id_of :: "user option \<Rightarrow> string js" where
  "user_id_of u = (case u of None \<Rightarrow> Undefined | Some x \<Rightarrow> Val (u_id x))"

text \<open>
  \<open>console.log(events[0].datetime)\<close> reads a property of \<open>events[0]\<close>, which is
  \<open>undefined\<close> when the array is empty: a \<open>TypeError\<close>.
\<close>

definition fetchEvents :: "world \<Rightarrow> (error + EventInfo list) \<times> world" where
  "fetchEvents w =
     (let anHourAgo = dateXHoursAgo 1 w;
          (r, w1) =
            select_events
              \<lparr>q_from = ''events'', q_columns = ''*'',
               q_embed = [Embed ''event_groups'' ''event_group_pairs''],
               q_filters =
                 [Filter (Not Eq) (Column ''is_cancelled'') (Boolean True),
                  Filter (Not Eq) (Column ''is_ended'') (Boolean True),
                  Filter Gt (Column ''datetime'') (Instant (toInstant anHourAgo))],
               q_order = Some (''datetime'', True)\<rparr> w
      in case error r of
           Some e \<Rightarrow> (Inl e, errorToast (message e) w1)
         | None \<Rightarrow>
             (case data r of
                None \<Rightarrow>
                  (Inl (Error ''Failed to fetch events''),
                   errorToast ''Failed to fetch events'' w1)
              | Some events \<Rightarrow>
                  if events = []
                  then (Inl (TypeError ''Cannot read properties of undefined (reading datetime)''), w1)
                  else
                    (Inr (map (\<lambda>e. e\<lparr>datetime :=
                                      toZonedDateTimeISO (toInstant (datetime e)) (time_zone w1)\<rparr>)
                            events),
                     w1)))"

definition fetchUserEvents :: "world \<Rightarrow> (error + EventInfo list) \<times> world" where
  "fetchUserEvents w =
     (let anHourAgo = dateXHoursAgo 1 w;
          (r, w1) =
            select_events
              \<lparr>q_from = ''events'', q_columns = ''*'',
               q_embed =
                 [Embed ''event_group_pair'' ''event_group_pairs'',
                  Inner ''event_registrations''],
               q_filters =
                 [Filter Eq (Of ''event_registrations'' ''user_id'')
                    (Text (wire_text (user_id_of (auth_user w)))),
                  Filter (Not Eq) (Column ''is_cancelled'') (Boolean True),
                  Filter (Not Eq) (Column ''is_ended'') (Boolean True),
                  Filter Gt (Column ''datetime'') (Instant (toInstant anHourAgo))],
               q_order = Some (''datetime'', True)\<rparr> w
      in case error r of
           Some e \<Rightarrow> (Inl e, errorToast (message e) w1)
         | None \<Rightarrow>
             (case data r of
                None \<Rightarrow> (Inl (Error ''Could not load user's events''), w1)
              | Some events \<Rightarrow>
                  (Inr (map (\<lambda>e. e\<lparr>datetime :=
                                    timestamptzToTemporalZonedDateTime (datetime e) w1\<rparr>)
                          events),
                   w1)))"

definition isRegisteredForEvent :: "int \<Rightarrow> world \<Rightarrow> (error + bool) \<times> world" where
  "isRegisteredForEvent eventId w =
     (if falsy (user_id_of (auth_user w)) then (Inr False, w)
      else
        (let (r, w1) =
               count_rows
                 \<lparr>q_from = ''event_registrations'', q_columns = ''id'', q_embed = [],
                  q_filters =
                    [Filter Eq (Column ''event_id'') (Number eventId),
                     Filter Eq (Column ''user_id'')
                       (Text (wire_text (user_id_of (auth_user w))))],
                  q_order = None\<rparr> w
         in case count_error r of
              Some e \<Rightarrow> (Inl e, w1)
            | None \<Rightarrow> (Inr (count r \<noteq> Some 0), w1)))"

text \<open>
  \<open>createEvent\<close> in two parts: the block under \<open>if (eventData.headerImageFile)\<close>, which
  returns the argument as the block leaves it, and the creation call after it. The name of
  the uploaded file is what \<open>nanoid()\<close> returned. What the server does with a creation
  call (the table \<open>events\<close> and the function \<open>create_event_with_groups\<close>) is SQL outside
  the sources: the call is recorded with what it sends, and it fails or not. The insert
  sends the argument as it is then (the date and time as text; \<open>event_group_pair\<close> is
  \<open>undefined\<close> and so not sent).
\<close>

definition upload_header :: "string \<Rightarrow> EditEventInfo \<Rightarrow> world \<Rightarrow> (error + EditEventInfo) \<times> world" where
  "upload_header fileName eventData w =
     (case headerImageFile eventData of
        Undefined \<Rightarrow> (Inr eventData, w)
      | Null \<Rightarrow> (Inr eventData, w)
      | Val f \<Rightarrow>
          (let (r, w1) = upload ''event-header-images'' fileName f w
           in case error r of
                Some e \<Rightarrow> (Inl e, w1)
              | None \<Rightarrow>
                  (case data r of
                     None \<Rightarrow> (Inl (Error ''Received no data after uploading image''), w1)
                   | Some d \<Rightarrow>
                       if Key d = [] then (Inl (Error ''Received no data after uploading image''), w1)
                       else (Inr (eventData\<lparr>ed_header_image := Val (Key d)\<rparr>), w1))))"

definition create :: "EditEventInfo \<Rightarrow> world \<Rightarrow> (error + unit) \<times> world" where
  "create eventData w =
     (if uses_groups eventData then
        (case ed_event_groups eventData of
           Val g \<Rightarrow>
             (let (creationError, w1) =
                    remote
                      (Rpc ''create_event_with_groups''
                         \<lparr>arg_title = ed_title eventData,
                          arg_description = ed_description eventData,
                          arg_header_image = ed_header_image eventData,
                          arg_datetime = Timestamptz (toInstant (ed_datetime eventData)),
                          arg_location = ed_location eventData,
                          arg_max_participants = ed_max_participants eventData,
                          groupATitle = g_title (groupA g),
                          groupADescription = g_description (groupA g),
                          groupBTitle = g_title (groupB g),
                          groupBDescription = g_description (groupB g)\<rparr>) w
              in case creationError of Some e \<Rightarrow> (Inl e, w1) | None \<Rightarrow> (Inr (), w1))
         | _ \<Rightarrow>
             (Inl (Error ''Event is indicated to use groups, but no groups were provided''), w))
      else
        (let (creationError, w1) = remote (Insert ''events'' eventData) w
         in case creationError of Some e \<Rightarrow> (Inl e, w1) | None \<Rightarrow> (Inr (), w1)))"

definition createEvent :: "string \<Rightarrow> EditEventInfo \<Rightarrow> world \<Rightarrow> (error + unit) \<times> EditEventInfo \<times> world" where
  "createEvent fileName eventData w =
     (case auth_user w of
        None \<Rightarrow>
          (Inl (Error ''User is not logged in''), eventData, errorToast ''Please log in first'' w)
      | Some u \<Rightarrow>
          (case upload_header fileName eventData w of
             (Inl e, w1) \<Rightarrow> (Inl e, eventData, w1)
           | (Inr eventData1, w1) \<Rightarrow>
               (case create eventData1 w1 of (r, w2) \<Rightarrow> (r, eventData1, w2))))"

section \<open>The profile service\<close>

definition logged_in :: "world \<Rightarrow> bool" where
  "logged_in w = (case auth_user w of None \<Rightarrow> False | Some u \<Rightarrow> \<not> falsy (u_email u))"

definition readProfile :: "world \<Rightarrow> (error + Profile) \<times> world" where
  "readProfile w =
     (case auth_user w of
        None \<Rightarrow> (Inl (Error ''User is not logged in''), w)
      | Some u \<Rightarrow>
          if falsy (u_email u) then (Inl (Error ''User is not logged in''), w)
          else
            (let (r, w1) =
                   select_profile
                     \<lparr>q_from = ''profiles'', q_columns = ''full_name, description, email'',
                      q_embed = [],
                      q_filters = [Filter Eq (Column ''user_id'') (Text (u_id u))],
                      q_order = None\<rparr> w
             in case error r of
                  Some e \<Rightarrow> (Inl e, w1)
                | None \<Rightarrow>
                    (case data r of
                       None \<Rightarrow> (Inl (Error ''Fetching profile unsuccessful''), w1)
                     | Some d \<Rightarrow>
                         (Inr \<lparr>email = from_column (pr_email d),
                               fullName = from_column (full_name d),
                               description = from_column (pr_description d)\<rparr>,
                          w1))))"

definition updateProfile :: "Profile \<Rightarrow> world \<Rightarrow> (error + Profile) \<times> world" where
  "updateProfile newProfile w =
     (case auth_user w of
        None \<Rightarrow> (Inl (Error ''User is not logged in''), w)
      | Some u \<Rightarrow>
          if falsy (u_email u) then (Inl (Error ''User is not logged in''), w)
          else if falsy (fullName newProfile)
          then (Inl (Error ''Argument object is missing 'fullName' attribute''), w)
          else
            (let (r, w1) =
                   update_profile
                     \<lparr>patch_full_name = fullName newProfile,
                      patch_description = description newProfile\<rparr>
                     [Filter Eq (Column ''user_id'') (Text (u_id u))] w
             in case error r of
                  Some e \<Rightarrow> (Inl e, w1)
                | None \<Rightarrow>
                    (case data r of
                       None \<Rightarrow> (Inl (Error ''Update of profile unsuccessful''), w1)
                     | Some d \<Rightarrow>
                         (let retArg =
                                \<lparr>email = from_column (pr_email d),
                                 fullName = from_column (full_name d),
                                 description = from_column (pr_description d)\<rparr>
                          in (Inr retArg, setProfileStore retArg w1)))))"

section \<open>Notions used in the statements\<close>

text \<open>The server answers the next call (it does not fail on the way).\<close>

definition answered :: "world \<Rightarrow> bool" where
  "answered w = (case faults w of [] \<Rightarrow> True | f # fs \<Rightarrow> f = None)"

text \<open>The header image that a creation call sends; \<open>None\<close> for any other call.\<close>

fun sent_header_image :: "request \<Rightarrow> string js option" where
  "sent_header_image (Insert t d) = Some (ed_header_image d)"
| "sent_header_image (Rpc f a) = Some (arg_header_image a)"
| "sent_header_image rq = None"

section \<open>Example states\<close>

definition example_user :: user where
  "example_user = \<lparr>u_id = ''u1'', u_email = Val ''ann@example.org''\<rparr>"

definition example_pair :: GroupPair where
  "example_pair =
     \<lparr>groupA = \<lparr>g_id = Val 1, g_title = ''A'', g_description = ''descA''\<rparr>,
      groupB = \<lparr>g_id = Val 2, g_title = ''B'', g_description = ''descB''\<rparr>\<rparr>"

definition example_event :: "int \<Rightarrow> int \<Rightarrow> bool \<Rightarrow> bool \<Rightarrow> GroupPair option \<Rightarrow> event_row" where
  "example_event i t ended cancelled g =
     \<lparr>col_id = i, col_organizer = ''u0'', col_title = ''Meeting'',
      col_description = ''A meeting'', col_header_image = None, col_datetime = t,
      col_location = ''Hall'', col_max_participants = 10, col_is_ended = ended,
      col_is_cancelled = cancelled, col_group_pair = g\<rparr>"

text \<open>
  It is ten hours after the epoch. Event 1 is now and has a pair of groups; event 2 was
  just under an hour ago; event 3 has ended, event 4 is cancelled, event 5 was an hour
  ago. The user is registered for event 1, somebody else for event 2.
\<close>

definition example_world :: world where
  "example_world =
     \<lparr>auth_user = Some example_user, auth_profile = None,
      db_events =
        [example_event 1 (10 * hour) False False (Some example_pair),
         example_event 2 (9 * hour + 1) False False None,
         example_event 3 (10 * hour) True False None,
         example_event 4 (10 * hour) False True None,
         example_event 5 (9 * hour) False False None],
      db_registrations =
        [\<lparr>user_id = Some ''u1'', reg_id = 1, event_id = 1, group_id = None, present = False\<rparr>,
         \<lparr>user_id = Some ''u2'', reg_id = 2, event_id = 2, group_id = None, present = False\<rparr>],
      db_profiles =
        [\<lparr>pr_user_id = ''u1'', full_name = None, pr_description = Some ''old'',
          pr_email = Some ''ann@example.org''\<rparr>],
      objects = [], requests = [], faults = [], clock = 10 * hour,
      time_zone = ''Europe/Zurich'', toasts = []\<rparr>"

definition example_info :: "int \<Rightarrow> int \<Rightarrow> GroupPair js \<Rightarrow> GroupPair js \<Rightarrow> event_registration list js \<Rightarrow> EventInfo" where
  "example_info i t g g' rs =
     \<lparr>ev_id = i, organizer = ''u0'', title = ''Meeting'', ev_description = ''A meeting'',
      header_image = Null, datetime = ZonedDateTime t ''Europe/Zurich'', location = ''Hall'',
      max_participants = 10, event_groups = g, is_ended = False, is_cancelled = False,
      event_group_pair = g', event_registrations = rs\<rparr>"

definition example_edit :: "File js \<Rightarrow> EditEventInfo" where
  "example_edit f =
     \<lparr>ed_title = ''Meeting'', ed_description = ''A meeting'', ed_header_image = Undefined,
      ed_datetime = ZonedDateTime (12 * hour) ''Europe/Zurich'', ed_location = ''Hall'',
      ed_max_participants = 10, headerImageFile = f, uses_groups = False,
      ed_event_groups = Undefined\<rparr>"

definition example_profile :: "string js \<Rightarrow> Profile" where
  "example_profile d = \<lparr>email = Undefined, fullName = Val ''Ann'', description = d\<rparr>"

definition example_stored :: "string js \<Rightarrow> Profile" where
  "example_stored d = \<lparr>email = Val ''ann@example.org'', fullName = Val ''Ann'', description = d\<rparr>"

lemmas example_defs = example_world_def example_event_def example_user_def example_pair_def
  example_info_def example_edit_def example_profile_def example_stored_def

section \<open>The triggers: what an insert stores\<close>

lemma inject_user_id_unset:
  "user_id new = None \<Longrightarrow> user_id (inject_user_id auth_uid new) = auth_uid"
  by (simp add: inject_user_id_def)

lemma inject_user_id_set:
  "user_id new = Some u \<Longrightarrow> inject_user_id auth_uid new = new"
  by (simp add: inject_user_id_def)

lemma level_of_bindings:
  "level on_user_created_create_profile = For_each_row"
  "level on_vote_insert_inject_user_id = For_each_statement"
  "level on_registration_insert_inject_user_id = For_each_statement"
  by (simp_all add: level_def on_user_created_create_profile_def
      on_vote_insert_inject_user_id_def on_registration_insert_inject_user_id_def)

text \<open>Fired for each row, the function would stamp the row.\<close>

lemma fire_for_each_row:
  assumes "level t = For_each_row" and "tg_procedure t = ''public.inject_user_id''"
    and "user_id new = None"
  shows "user_id (fire_before_insert auth_uid t new) = auth_uid"
  using assms by (simp add: fire_before_insert_def run_procedure_def inject_user_id_def)

text \<open>As the bindings are written, it is fired for the statement.\<close>

lemma persisted_unchanged:
  "persisted ''public.votes'' auth_uid new = new"
  "persisted ''public.event_registrations'' auth_uid new = new"
  by (simp_all add: persisted_def triggers_def fire_before_insert_def level_def
      on_user_created_create_profile_def on_vote_insert_inject_user_id_def
      on_registration_insert_inject_user_id_def)

text \<open>
  Claim C2. The two bindings of \<open>inject_user_id\<close> have no \<open>for each row\<close> clause, so
  they fire once for the statement and the row is stored as it came. A registration and a
  vote that the session \<open>u1\<close> inserts without a \<open>user_id\<close> are stored with \<open>user_id\<close>
  still \<open>NULL\<close>, not with \<open>u1\<close>.
\<close>
theorem persisted_without_user_id:
  "user_id (persisted ''public.event_registrations'' (Some ''u1'')
      \<lparr>user_id = None, reg_id = 3, event_id = 1, group_id = None, present = False\<rparr>) = None \<and>
   user_id (persisted ''public.votes'' (Some ''u1'') \<lparr>user_id = None\<rparr>) = None"
  by (simp add: persisted_def triggers_def fire_before_insert_def level_def
      on_user_created_create_profile_def on_vote_insert_inject_user_id_def
      on_registration_insert_inject_user_id_def)

section \<open>The network\<close>

lemma remote_eq:
  "remote rq w =
     (case faults w of [] \<Rightarrow> None | f # fs \<Rightarrow> f,
      w\<lparr>requests := requests w @ [rq], faults := tl (faults w)\<rparr>)"
  by (simp add: remote_def split: list.splits)

lemma not_answered: "\<not> answered w \<longleftrightarrow> (\<exists>e fs. faults w = Some e # fs)"
  by (auto simp add: answered_def split: list.splits)

lemma remote_answered: "answered w \<Longrightarrow> fst (remote rq w) = None"
  by (auto simp add: remote_eq answered_def split: list.splits)

lemma remote_snd:
  "snd (remote rq w) = w\<lparr>requests := requests w @ [rq], faults := tl (faults w)\<rparr>"
  by (simp add: remote_eq)

section \<open>The event listings\<close>

lemma fold_add_embed_columns:
  "is_cancelled (fold (add_embed q w r) es j) = is_cancelled j \<and>
   is_ended (fold (add_embed q w r) es j) = is_ended j \<and>
   datetime (fold (add_embed q w r) es j) = datetime j \<and>
   ev_id (fold (add_embed q w r) es j) = ev_id j"
proof (induction es arbitrary: j)
  case Nil
  show ?case by simp
next
  case (Cons e es)
  show ?case by (cases e) (simp_all add: Cons put_key_def)
qed

lemma to_json_columns:
  "is_cancelled (to_json q w r) = col_is_cancelled r"
  "is_ended (to_json q w r) = col_is_ended r"
  "datetime (to_json q w r) = Timestamptz (col_datetime r)"
  "ev_id (to_json q w r) = col_id r"
  by (simp_all add: to_json_def fold_add_embed_columns)

lemma sorted_map_parse:
  "map (\<lambda>e. toInstant (datetime e))
     (map (\<lambda>e. e\<lparr>datetime := ZonedDateTime (toInstant (datetime e)) z\<rparr>)
        (map (to_json q w') rows)) = map col_datetime rows"
  by (simp add: to_json_columns comp_def)

text \<open>
  Claim C1. Every event in the list that \<open>fetchEvents\<close> returns is not cancelled, has not
  ended and is later than one hour before the time of the clock, and the list is in
  non-decreasing order of \<open>datetime\<close>.
\<close>
theorem fetchEvents_listing:
  assumes "fst (fetchEvents w) = Inr evs"
  shows "(\<forall>e\<in>set evs. \<not> is_cancelled e \<and> \<not> is_ended e \<and>
             clock w - hour < toInstant (datetime e)) \<and>
         sorted (map (\<lambda>e. toInstant (datetime e)) evs)"
proof -
  define keep where
    "keep = (\<lambda>r::event_row. \<not> col_is_cancelled r \<and> \<not> col_is_ended r \<and> clock w - hour < col_datetime r)"
  from assms have "\<exists>q w'. evs = map (\<lambda>e. e\<lparr>datetime := ZonedDateTime (toInstant (datetime e)) (time_zone w)\<rparr>)
             (map (to_json q w') (sort_key col_datetime (filter keep (db_events w))))"
    unfolding keep_def
    by (auto simp add: fetchEvents_def select_events_def remote_eq dateXHoursAgo_def
        run_events_query_def accepted_def events_column_def registrations_column_def
        sort_column_def failed_def toZonedDateTimeISO_def Let_def
        split: list.splits option.splits prod.splits if_splits)
  then obtain q w' where evs:
    "evs = map (\<lambda>e. e\<lparr>datetime := ZonedDateTime (toInstant (datetime e)) (time_zone w)\<rparr>)
             (map (to_json q w') (sort_key col_datetime (filter keep (db_events w))))"
    by blast
  have "sorted (map (\<lambda>e. toInstant (datetime e)) evs)"
    unfolding evs sorted_map_parse by (rule sorted_sort_key)
  moreover have "\<forall>e\<in>set evs. \<not> is_cancelled e \<and> \<not> is_ended e \<and>
             clock w - hour < toInstant (datetime e)"
    unfolding evs by (auto simp: to_json_columns keep_def)
  ultimately show ?thesis by simp
qed

lemmas listing_defs = select_events_def remote_def dateXHoursAgo_def
  run_events_query_def accepted_def events_column_def registrations_column_def
  sort_column_def failed_def Let_def to_json_def put_key_def registrations_of_def
  user_id_of_def

theorem fetchEvents_listing_witness:
  "fst (fetchEvents example_world) =
     Inr [example_info 2 (9 * hour + 1) Null Undefined Undefined,
          example_info 1 (10 * hour) (Val example_pair) Undefined Undefined] \<and>
   \<not> is_cancelled (example_info 2 (9 * hour + 1) Null Undefined Undefined) \<and>
   \<not> is_ended (example_info 2 (9 * hour + 1) Null Undefined Undefined) \<and>
   clock example_world - hour <
     toInstant (datetime (example_info 2 (9 * hour + 1) Null Undefined Undefined)) \<and>
   \<not> is_cancelled (example_info 1 (10 * hour) (Val example_pair) Undefined Undefined) \<and>
   \<not> is_ended (example_info 1 (10 * hour) (Val example_pair) Undefined Undefined) \<and>
   clock example_world - hour <
     toInstant (datetime (example_info 1 (10 * hour) (Val example_pair) Undefined Undefined)) \<and>
   sorted (map (\<lambda>e. toInstant (datetime e))
     [example_info 2 (9 * hour + 1) Null Undefined Undefined,
      example_info 1 (10 * hour) (Val example_pair) Undefined Undefined])"
proof -
  have h: "fst (fetchEvents example_world) =
     Inr [example_info 2 (9 * hour + 1) Null Undefined Undefined,
          example_info 1 (10 * hour) (Val example_pair) Undefined Undefined]"
    by (simp add: fetchEvents_def listing_defs toZonedDateTimeISO_def example_defs hour_def)
  from h fetchEvents_listing [OF h] show ?thesis
    by simp
qed

lemma sort_key_empty: "sort_key k xs = [] \<longleftrightarrow> xs = []"
  by (metis length_0_conv length_sort)

lemma fetchEvents_throws:
  "isl (fst (fetchEvents w)) \<longleftrightarrow>
     \<not> answered w \<or>
     filter (\<lambda>r. \<not> col_is_cancelled r \<and> \<not> col_is_ended r \<and> clock w - hour < col_datetime r)
       (db_events w) = []"
  by (auto simp add: fetchEvents_def select_events_def remote_eq dateXHoursAgo_def
      run_events_query_def accepted_def events_column_def registrations_column_def
      sort_column_def failed_def answered_def Let_def sort_key_empty
      split: list.splits option.splits prod.splits if_splits)

text \<open>
  Claim C3. When the query succeeds with an empty list, \<open>fetchEvents\<close> does not return
  it: with no event in the table, and with none but an ended one, it throws a
  \<open>TypeError\<close>.
\<close>
theorem fetchEvents_no_events:
  "fst (fetchEvents (example_world\<lparr>db_events := []\<rparr>)) =
     Inl (TypeError ''Cannot read properties of undefined (reading datetime)'') \<and>
   fst (fetchEvents (example_world\<lparr>db_events := [example_event 3 (10 * hour) True False None]\<rparr>)) =
     Inl (TypeError ''Cannot read properties of undefined (reading datetime)'')"
  by (simp add: fetchEvents_def listing_defs example_defs)

lemma to_json_user_keys:
  "q_embed q = [Embed ''event_group_pair'' ''event_group_pairs'', Inner ''event_registrations''] \<Longrightarrow>
   event_groups (to_json q w r) = Undefined \<and>
   event_group_pair (to_json q w r) = from_column (col_group_pair r)"
  by (simp add: to_json_def put_key_def)


lemma set_order_rows: "set (order_rows ord rows) = set rows"
  by (cases ord) (auto split: option.splits if_splits)

lemma select_events_data:
  assumes "select_events q w = (r, w')" and "data r = Some js"
  shows "\<exists>rows. set rows \<subseteq> set (db_events w) \<and> js = map (to_json q w') rows"
proof -
  from assms have
    "js = map (to_json q w')
       (order_rows (q_order q)
         (filter (\<lambda>r. list_all (holds events_column r) (filter own (q_filters q)) \<and>
                      list_all (joined q w' r) (q_embed q)) (db_events w)))"
    by (auto simp add: select_events_def remote_eq run_events_query_def failed_def
        split: option.splits list.splits if_splits)
  then show ?thesis
    by (intro exI conjI) (auto simp add: set_order_rows)
qed

text \<open>
  Claim C10. Every event that \<open>fetchUserEvents\<close> returns has no \<open>event_groups\<close>: the
  key is \<open>undefined\<close>, and the pair of groups that the database joins to the event's row
  (or \<open>null\<close>, when the row has none) is under the key \<open>event_group_pair\<close>.
\<close>
theorem fetchUserEvents_keys:
  assumes "fst (fetchUserEvents w) = Inr evs"
  shows "\<forall>e\<in>set evs. event_groups e = Undefined \<and>
           (\<exists>r\<in>set (db_events w). col_id r = ev_id e \<and>
              event_group_pair e = from_column (col_group_pair r))"
proof -
  define q where "q =
    \<lparr>q_from = ''events'', q_columns = ''*'',
     q_embed = [Embed ''event_group_pair'' ''event_group_pairs'', Inner ''event_registrations''],
     q_filters =
       [Filter Eq (Of ''event_registrations'' ''user_id'')
          (Text (wire_text (user_id_of (auth_user w)))),
        Filter (Not Eq) (Column ''is_cancelled'') (Boolean True),
        Filter (Not Eq) (Column ''is_ended'') (Boolean True),
        Filter Gt (Column ''datetime'') (Instant (clock w - hour))],
     q_order = Some (''datetime'', True)\<rparr>"
  have embed: "q_embed q =
      [Embed ''event_group_pair'' ''event_group_pairs'', Inner ''event_registrations'']"
    by (simp add: q_def)
  obtain r w' where sel: "select_events q w = (r, w')"
    by (cases "select_events q w")
  from assms sel obtain js where js: "data r = Some js"
    and evs: "evs = map (\<lambda>e. e\<lparr>datetime := timestamptzToTemporalZonedDateTime (datetime e) w'\<rparr>) js"
    by (auto simp add: fetchUserEvents_def dateXHoursAgo_def Let_def q_def
        split: option.splits)
  from select_events_data [OF sel js] obtain rows
    where rows: "set rows \<subseteq> set (db_events w)" and js': "js = map (to_json q w') rows"
    by blast
  show ?thesis
    unfolding evs js' using rows
    by (auto simp add: to_json_user_keys [OF embed] to_json_columns)
qed

theorem fetchUserEvents_keys_witness:
  "fst (fetchUserEvents example_world) =
     Inr [example_info 1 (10 * hour) Undefined (Val example_pair)
            (Val [\<lparr>user_id = Some ''u1'', reg_id = 1, event_id = 1, group_id = None,
                   present = False\<rparr>])] \<and>
   event_groups
     (example_info 1 (10 * hour) Undefined (Val example_pair)
        (Val [\<lparr>user_id = Some ''u1'', reg_id = 1, event_id = 1, group_id = None,
               present = False\<rparr>])) = Undefined \<and>
   (\<exists>r\<in>set (db_events example_world).
      col_id r = 1 \<and> col_group_pair r = Some example_pair \<and>
      event_group_pair
        (example_info 1 (10 * hour) Undefined (Val example_pair)
           (Val [\<lparr>user_id = Some ''u1'', reg_id = 1, event_id = 1, group_id = None,
                  present = False\<rparr>])) = from_column (col_group_pair r))"
proof -
  have h: "fst (fetchUserEvents example_world) =
     Inr [example_info 1 (10 * hour) Undefined (Val example_pair)
            (Val [\<lparr>user_id = Some ''u1'', reg_id = 1, event_id = 1, group_id = None,
                   present = False\<rparr>])]"
    by (simp add: fetchUserEvents_def listing_defs timestamptzToTemporalZonedDateTime_def
        example_defs hour_def)
  from h fetchUserEvents_keys [OF h] show ?thesis
    by (simp add: example_defs)
qed

lemma fetchUserEvents_sends:
  "\<exists>q. requests (snd (fetchUserEvents w)) = requests w @ [Select q]"
  by (simp add: fetchUserEvents_def select_events_def remote_eq errorToast_def Let_def
      split: prod.splits option.splits list.splits)

text \<open>
  Claim C4. With nobody signed in, \<open>fetchUserEvents\<close> still sends its query, the filter
  on the user being the text \<open>undefined\<close>, and returns what the server answers: here the
  empty list, and no error.
\<close>
theorem fetchUserEvents_signed_out:
  "requests (snd (fetchUserEvents (example_world\<lparr>auth_user := None\<rparr>))) =
     [Select
        \<lparr>q_from = ''events'', q_columns = ''*'',
         q_embed = [Embed ''event_group_pair'' ''event_group_pairs'', Inner ''event_registrations''],
         q_filters =
           [Filter Eq (Of ''event_registrations'' ''user_id'') (Text ''undefined''),
            Filter (Not Eq) (Column ''is_cancelled'') (Boolean True),
            Filter (Not Eq) (Column ''is_ended'') (Boolean True),
            Filter Gt (Column ''datetime'') (Instant (9 * hour))],
         q_order = Some (''datetime'', True)\<rparr>] \<and>
   fst (fetchUserEvents (example_world\<lparr>auth_user := None\<rparr>)) = Inr []"
  by (simp add: fetchUserEvents_def listing_defs timestamptzToTemporalZonedDateTime_def
      example_defs hour_def)

section \<open>Registrations\<close>

lemma holds_event_id:
  "holds registrations_column r (Filter Eq (Column ''event_id'') (Number n)) = (event_id r = n)"
  by (simp add: registrations_column_def)

lemma holds_registration_user:
  "holds registrations_column r (Filter Eq (Column ''user_id'') (Text uid)) =
     (user_id r = Some uid)"
  by (cases "user_id r") (simp_all add: registrations_column_def)

lemma known_registration:
  "known registrations_column (Filter Eq (Column ''event_id'') (Number n))"
  "known registrations_column (Filter Eq (Column ''user_id'') (Text uid))"
  by (simp_all add: registrations_column_def)

lemma count_rows_registration:
  "count_rows
     \<lparr>q_from = ''event_registrations'', q_columns = cols, q_embed = es,
      q_filters =
        [Filter Eq (Column ''event_id'') (Number n), Filter Eq (Column ''user_id'') (Text uid)],
      q_order = ord\<rparr> w =
   (let rq = Select_count
         \<lparr>q_from = ''event_registrations'', q_columns = cols, q_embed = es,
          q_filters =
            [Filter Eq (Column ''event_id'') (Number n), Filter Eq (Column ''user_id'') (Text uid)],
          q_order = ord\<rparr>
    in case fst (remote rq w) of
         Some e \<Rightarrow> (\<lparr>count = None, count_error = Some e\<rparr>, snd (remote rq w))
       | None \<Rightarrow>
           (\<lparr>count = Some (length (filter (\<lambda>r. event_id r = n \<and> user_id r = Some uid)
                                  (db_registrations w))),
             count_error = None\<rparr>,
            snd (remote rq w)))"
  by (simp add: count_rows_def remote_eq Let_def holds_event_id holds_registration_user
      known_registration del: holds.simps known.simps
      split: option.splits list.splits)

text \<open>
  Claim C8. With nobody signed in (no user, or a user whose id is empty)
  \<open>isRegisteredForEvent\<close> returns \<open>false\<close> and leaves everything as it is: no call is
  sent. With a user signed in it sends one count query, and when the server answers it the
  result says whether the table has a registration of that user for that event.
\<close>
theorem isRegisteredForEvent_result:
  "(falsy (user_id_of (auth_user w)) \<longrightarrow> isRegisteredForEvent eventId w = (Inr False, w)) \<and>
   (auth_user w = Some u \<and> u_id u \<noteq> [] \<longrightarrow>
      (\<exists>q. requests (snd (isRegisteredForEvent eventId w)) = requests w @ [Select_count q]) \<and>
      (answered w \<longrightarrow>
         fst (isRegisteredForEvent eventId w) =
           Inr (\<exists>r\<in>set (db_registrations w). event_id r = eventId \<and> user_id r = Some (u_id u))))"
proof (intro conjI impI)
  assume "falsy (user_id_of (auth_user w))"
  then show "isRegisteredForEvent eventId w = (Inr False, w)"
    by (simp add: isRegisteredForEvent_def)
next
  assume u: "auth_user w = Some u \<and> u_id u \<noteq> []"
  then show "\<exists>q. requests (snd (isRegisteredForEvent eventId w)) = requests w @ [Select_count q]"
    by (simp add: isRegisteredForEvent_def user_id_of_def count_rows_registration remote_snd
        Let_def split: option.splits)
next
  assume u: "auth_user w = Some u \<and> u_id u \<noteq> []" and "answered w"
  then show "fst (isRegisteredForEvent eventId w) =
           Inr (\<exists>r\<in>set (db_registrations w). event_id r = eventId \<and> user_id r = Some (u_id u))"
    by (auto simp add: isRegisteredForEvent_def user_id_of_def count_rows_registration
        remote_answered Let_def filter_empty_conv)
qed

theorem isRegisteredForEvent_result_witness:
  "falsy (user_id_of (auth_user (example_world\<lparr>auth_user := None\<rparr>))) \<and>
   isRegisteredForEvent 1 (example_world\<lparr>auth_user := None\<rparr>) =
     (Inr False, example_world\<lparr>auth_user := None\<rparr>) \<and>
   auth_user example_world = Some example_user \<and> u_id example_user \<noteq> [] \<and>
   answered example_world \<and>
   fst (isRegisteredForEvent 1 example_world) = Inr True \<and>
   fst (isRegisteredForEvent 2 example_world) = Inr False \<and>
   (\<exists>q. requests (snd (isRegisteredForEvent 1 example_world)) =
      requests example_world @ [Select_count q])"
proof -
  have a: "falsy (user_id_of (auth_user (example_world\<lparr>auth_user := None\<rparr>)))"
    by (simp add: user_id_of_def)
  have u: "auth_user example_world = Some example_user \<and> u_id example_user \<noteq> []"
    by (simp add: example_defs)
  have ans: "answered example_world"
    by (simp add: answered_def example_defs)
  have r1: "(\<exists>r\<in>set (db_registrations example_world).
               event_id r = 1 \<and> user_id r = Some (u_id example_user)) = True"
    by (simp add: example_defs)
  have r2: "(\<exists>r\<in>set (db_registrations example_world).
               event_id r = 2 \<and> user_id r = Some (u_id example_user)) = False"
    by (simp add: example_defs)
  from a u ans
    isRegisteredForEvent_result [of "example_world\<lparr>auth_user := None\<rparr>" 1 example_user]
    isRegisteredForEvent_result [of example_world 1 example_user]
    isRegisteredForEvent_result [of example_world 2 example_user]
  show ?thesis
    unfolding r1 r2 by blast
qed

section \<open>Creating an event\<close>

lemma create_requests:
  assumes "create d w = (res, w')"
  shows "\<exists>rest. requests w' = requests w @ rest \<and>
           (\<forall>rq\<in>set rest. sent_header_image rq = Some (ed_header_image d)) \<and>
           (res = Inr () \<longrightarrow> rest \<noteq> [])"
  using assms
  by (cases "ed_event_groups d")
    (auto simp add: create_def remote_eq Let_def split: if_splits option.splits list.splits)

lemma object_key_not_empty: "object_key b n \<noteq> []"
  by (simp add: object_key_def)

lemma upload_header_stored:
  assumes "headerImageFile d = Val f" and "answered w"
    and "object_key ''event-header-images'' n \<notin> fst ` set (objects w)"
  shows "upload_header n d w =
           (Inr (d\<lparr>ed_header_image := Val (object_key ''event-header-images'' n)\<rparr>),
            w\<lparr>requests := requests w @ [Upload ''event-header-images'' n f],
              faults := tl (faults w),
              objects := objects w @ [(object_key ''event-header-images'' n, f)]\<rparr>)"
  using assms
  by (simp add: upload_header_def upload_def remote_eq answered_def Let_def
      object_key_not_empty split: list.splits)

text \<open>
  Claim C9. \<open>createEvent\<close> changes its argument. When the argument has a header image
  file and the upload succeeds (a user is signed in, the server answers, the key is free),
  the argument's \<open>header_image\<close> becomes the key of the stored object and nothing else of
  it changes; the upload is the first call sent, and every creation call after it sends
  that key. Without a file the argument is left as it is.
\<close>
theorem createEvent_header_image:
  assumes "createEvent fileName eventData w = (res, eventData', w')"
  shows "(case headerImageFile eventData of
            Val f \<Rightarrow>
              auth_user w \<noteq> None \<and> answered w \<and>
              object_key ''event-header-images'' fileName \<notin> fst ` set (objects w) \<longrightarrow>
                eventData' = eventData\<lparr>ed_header_image := Val (object_key ''event-header-images'' fileName)\<rparr> \<and>
                (\<exists>rest. requests w' =
                    requests w @ Upload ''event-header-images'' fileName f # rest \<and>
                   (\<forall>rq\<in>set rest.
                      sent_header_image rq = Some (Val (object_key ''event-header-images'' fileName))) \<and>
                   (res = Inr () \<longrightarrow> rest \<noteq> []))
          | _ \<Rightarrow> eventData' = eventData)"
proof (cases "headerImageFile eventData")
  case Undefined
  with assms show ?thesis
    by (auto simp add: createEvent_def upload_header_def split: option.splits prod.splits)
next
  case Null
  with assms show ?thesis
    by (auto simp add: createEvent_def upload_header_def split: option.splits prod.splits)
next
  case (Val f)
  show ?thesis
  proof (cases "auth_user w \<noteq> None \<and> answered w \<and>
      object_key ''event-header-images'' fileName \<notin> fst ` set (objects w)")
    case False
    with Val show ?thesis by auto
  next
    case True
    define d1 where "d1 = eventData\<lparr>ed_header_image := Val (object_key ''event-header-images'' fileName)\<rparr>"
    define w1 where "w1 = w\<lparr>requests := requests w @ [Upload ''event-header-images'' fileName f],
              faults := tl (faults w),
              objects := objects w @ [(object_key ''event-header-images'' fileName, f)]\<rparr>"
    from True Val have up: "upload_header fileName eventData w = (Inr d1, w1)"
      by (simp add: upload_header_stored d1_def w1_def)
    from True obtain u where u: "auth_user w = Some u"
      by auto
    from assms u up have cr: "create d1 w1 = (res, w')" and d': "eventData' = d1"
      by (auto simp add: createEvent_def split: prod.splits)
    from create_requests [OF cr] obtain rest where
      rest: "requests w' = requests w1 @ rest"
        "\<forall>rq\<in>set rest. sent_header_image rq = Some (ed_header_image d1)"
        "res = Inr () \<longrightarrow> rest \<noteq> []"
      by blast
    have "requests w' = requests w @ Upload ''event-header-images'' fileName f # rest"
      by (simp add: rest w1_def)
    moreover have "ed_header_image d1 = Val (object_key ''event-header-images'' fileName)"
      by (simp add: d1_def)
    ultimately show ?thesis
      using Val True d' rest by (auto simp add: d1_def)
  qed
qed

theorem createEvent_header_image_witness:
  "headerImageFile (example_edit (Val ''png'')) = Val ''png'' \<and>
   auth_user example_world \<noteq> None \<and> answered example_world \<and>
   object_key ''event-header-images'' ''abc'' \<notin> fst ` set (objects example_world) \<and>
   fst (snd (createEvent ''abc'' (example_edit (Val ''png'')) example_world)) =
     (example_edit (Val ''png''))
       \<lparr>ed_header_image := Val (object_key ''event-header-images'' ''abc'')\<rparr> \<and>
   (\<exists>rest. requests (snd (snd (createEvent ''abc'' (example_edit (Val ''png'')) example_world))) =
        requests example_world @ Upload ''event-header-images'' ''abc'' ''png'' # rest \<and>
      (\<forall>rq\<in>set rest.
         sent_header_image rq = Some (Val (object_key ''event-header-images'' ''abc''))) \<and>
      rest \<noteq> []) \<and>
   headerImageFile (example_edit Undefined) = Undefined \<and>
   fst (snd (createEvent ''abc'' (example_edit Undefined) example_world)) =
     example_edit Undefined"
proof -
  have a: "headerImageFile (example_edit (Val ''png'')) = Val ''png''"
    and b: "headerImageFile (example_edit Undefined) = Undefined"
    by (simp_all add: example_edit_def)
  have c: "auth_user example_world \<noteq> None \<and> answered example_world \<and>
      object_key ''event-header-images'' ''abc'' \<notin> fst ` set (objects example_world)"
    by (simp add: example_defs answered_def)
  have r: "fst (createEvent ''abc'' (example_edit (Val ''png'')) example_world) = Inr ()"
    by (simp add: createEvent_def upload_header_def upload_def create_def remote_def
        Let_def object_key_def example_defs)
  have h1: "createEvent ''abc'' (example_edit (Val ''png'')) example_world =
      (Inr (), fst (snd (createEvent ''abc'' (example_edit (Val ''png'')) example_world)),
       snd (snd (createEvent ''abc'' (example_edit (Val ''png'')) example_world)))"
    by (simp add: r [symmetric])
  have h2: "createEvent ''abc'' (example_edit Undefined) example_world =
      (fst (createEvent ''abc'' (example_edit Undefined) example_world),
       fst (snd (createEvent ''abc'' (example_edit Undefined) example_world)),
       snd (snd (createEvent ''abc'' (example_edit Undefined) example_world)))"
    by simp
  from a b c createEvent_header_image [OF h1] createEvent_header_image [OF h2]
  show ?thesis
    by simp
qed

section \<open>The profile\<close>

lemma holds_user_id:
  "holds profiles_column r (Filter Eq (Column ''user_id'') (Text uid)) = (pr_user_id r = uid)"
  by (simp add: profiles_column_def)

lemma known_user_id: "known profiles_column (Filter Eq (Column ''user_id'') (Text uid))"
  by (simp add: profiles_column_def)

lemma update_profile_by_user:
  "update_profile p [Filter Eq (Column ''user_id'') (Text uid)] w =
     (let w1 = snd (remote (Update ''profiles'' p [Filter Eq (Column ''user_id'') (Text uid)]) w)
      in case fst (remote (Update ''profiles'' p [Filter Eq (Column ''user_id'') (Text uid)]) w) of
           Some e \<Rightarrow> (failed e, w1)
         | None \<Rightarrow>
             (case filter (\<lambda>r. pr_user_id r = uid) (db_profiles w) of
                [] \<Rightarrow>
                  (\<lparr>data = None, error = None\<rparr>,
                   w1\<lparr>db_profiles :=
                        map (\<lambda>x. if pr_user_id x = uid then apply_patch p x else x)
                          (db_profiles w)\<rparr>)
              | [d] \<Rightarrow>
                  (\<lparr>data = Some (apply_patch p d), error = None\<rparr>,
                   w1\<lparr>db_profiles :=
                        map (\<lambda>x. if pr_user_id x = uid then apply_patch p x else x)
                          (db_profiles w)\<rparr>)
              | d # d' # ds \<Rightarrow>
                  (failed (PostgrestError ''JSON object requested, multiple (or no) rows returned''),
                   w1)))"
  by (simp add: update_profile_def remote_eq maybeSingle_def failed_def Let_def
      holds_user_id known_user_id del: holds.simps known.simps
      split: option.splits list.splits)

lemma select_profile_by_user:
  "select_profile
     \<lparr>q_from = ''profiles'', q_columns = cols, q_embed = es,
      q_filters = [Filter Eq (Column ''user_id'') (Text uid)], q_order = ord\<rparr> w =
     (let rq = Select \<lparr>q_from = ''profiles'', q_columns = cols, q_embed = es,
                 q_filters = [Filter Eq (Column ''user_id'') (Text uid)], q_order = ord\<rparr>
      in case fst (remote rq w) of
           Some e \<Rightarrow> (failed e, snd (remote rq w))
         | None \<Rightarrow>
             (maybeSingle (filter (\<lambda>r. pr_user_id r = uid) (db_profiles w)),
              snd (remote rq w)))"
  by (simp add: select_profile_def remote_eq Let_def
      holds_user_id known_user_id del: holds.simps known.simps
      split: option.splits list.splits)

text \<open>
  Claim C6. For a signed-in user, \<open>updateProfile\<close> with a full name that is empty or
  missing throws the error about the missing attribute and leaves everything as it is: no
  call is sent, the database and the store are unchanged.
\<close>
theorem updateProfile_missing_name:
  assumes "logged_in w" and "falsy (fullName p)"
  shows "updateProfile p w =
           (Inl (Error ''Argument object is missing 'fullName' attribute''), w)"
  using assms by (auto simp add: updateProfile_def logged_in_def split: option.splits)

lemmas profile_defs = updateProfile_def readProfile_def update_profile_def select_profile_def
  remote_def maybeSingle_def failed_def setProfileStore_def apply_patch_def
  profiles_column_def Let_def

theorem updateProfile_missing_name_witness:
  "logged_in example_world \<and>
   falsy (fullName \<lparr>email = Undefined, fullName = Val [], description = Val ''Hello''\<rparr>) \<and>
   updateProfile \<lparr>email = Undefined, fullName = Val [], description = Val ''Hello''\<rparr>
     example_world =
     (Inl (Error ''Argument object is missing 'fullName' attribute''), example_world)"
proof -
  have a: "logged_in example_world"
    by (simp add: logged_in_def example_defs)
  have b: "falsy (fullName \<lparr>email = Undefined, fullName = Val [], description = Val ''Hello''\<rparr>)"
    by simp
  from a b updateProfile_missing_name [OF a b] show ?thesis
    by blast
qed

lemma apply_patch_user [simp]: "pr_user_id (apply_patch p d) = pr_user_id d"
  by (simp add: apply_patch_def)

lemma updated_row_stored:
  assumes "filter (\<lambda>r. pr_user_id r = uid) rows = [d]"
  shows "apply_patch p d \<in> set (map (\<lambda>x. if pr_user_id x = uid then apply_patch p x else x) rows)"
    and "pr_user_id d = uid"
proof -
  have "d \<in> set (filter (\<lambda>r. pr_user_id r = uid) rows)"
    by (simp add: assms)
  then have "d \<in> set rows" and "pr_user_id d = uid"
    by simp_all
  then show "apply_patch p d \<in> set (map (\<lambda>x. if pr_user_id x = uid then apply_patch p x else x) rows)"
    and "pr_user_id d = uid"
    by force+
qed

lemma filter_updated:
  "filter (\<lambda>r. pr_user_id r = uid)
     (map (\<lambda>x. if pr_user_id x = uid then apply_patch p x else x) rows) =
   map (apply_patch p) (filter (\<lambda>r. pr_user_id r = uid) rows)"
  by (induction rows) simp_all

lemma length_one: "length xs \<noteq> 1 \<longleftrightarrow> (case xs of [] \<Rightarrow> True | [x] \<Rightarrow> False | x # y # ys \<Rightarrow> True)"
  by (simp split: list.splits)

text \<open>
  Claim C7. \<open>updateProfile\<close> writes the profile store exactly when it succeeds. On
  success the store holds the profile it returns, which is that of the user's updated row
  in the database. It throws, and leaves the store as it was, exactly when nobody is
  signed in, or the name is missing, or the call fails, or the update does not match
  exactly one row.
\<close>
theorem updateProfile_store:
  assumes "updateProfile p w = (res, w')"
  shows "(case res of
            Inl e \<Rightarrow> auth_profile w' = auth_profile w
          | Inr r \<Rightarrow>
              auth_profile w' = Some r \<and>
              (\<exists>d\<in>set (db_profiles w').
                 Some (pr_user_id d) = map_option u_id (auth_user w) \<and>
                 email r = from_column (pr_email d) \<and>
                 fullName r = from_column (full_name d) \<and>
                 description r = from_column (pr_description d))) \<and>
         (isl res \<longleftrightarrow>
            \<not> logged_in w \<or> falsy (fullName p) \<or> \<not> answered w \<or>
            length (filter (\<lambda>d. Some (pr_user_id d) = map_option u_id (auth_user w)) (db_profiles w)) \<noteq> 1)"
proof (cases "logged_in w \<and> \<not> falsy (fullName p)")
  case False
  with assms show ?thesis
    by (auto simp add: updateProfile_def logged_in_def split: option.splits if_splits)
next
  case True
  then obtain u where u: "auth_user w = Some u" "\<not> falsy (u_email u)" "\<not> falsy (fullName p)"
    by (auto simp add: logged_in_def split: option.splits)
  show ?thesis
  proof (cases "answered w")
    case False
    then obtain e fs where "faults w = Some e # fs"
      by (auto simp add: not_answered)
    with assms u True show ?thesis
      by (auto simp add: updateProfile_def update_profile_by_user remote_eq failed_def
          answered_def Let_def)
  next
    case ans: True
    define own where "own = filter (\<lambda>r. pr_user_id r = u_id u) (db_profiles w)"
    define patch where
      "patch = \<lparr>patch_full_name = fullName p, patch_description = description p\<rparr>"
    show ?thesis
    proof (cases "\<exists>d. own = [d]")
      case False
      then have "length own \<noteq> 1"
        by (cases own) auto
      moreover from False assms u ans have "isl res \<and> auth_profile w' = auth_profile w"
        by (auto simp add: updateProfile_def update_profile_by_user remote_answered remote_snd
            failed_def Let_def own_def split: list.splits)
      ultimately show ?thesis
        using u by (cases res) (auto simp add: own_def)
    next
      case True
      then obtain d where d: "own = [d]"
        by blast
      have stored: "apply_patch patch d \<in>
          set (map (\<lambda>x. if pr_user_id x = u_id u then apply_patch patch x else x) (db_profiles w))"
        and uid: "pr_user_id d = u_id u"
        by (rule updated_row_stored [OF d [unfolded own_def]])+
      from assms u ans d have res: "res =
          Inr \<lparr>email = from_column (pr_email (apply_patch patch d)),
               fullName = from_column (full_name (apply_patch patch d)),
               description = from_column (pr_description (apply_patch patch d))\<rparr>"
        and w': "auth_profile w' = Some (projr res)"
          "db_profiles w' =
             map (\<lambda>x. if pr_user_id x = u_id u then apply_patch patch x else x) (db_profiles w)"
        by (auto simp add: updateProfile_def update_profile_by_user remote_answered remote_snd
            setProfileStore_def Let_def own_def patch_def)
      have "length own = 1"
        by (simp add: d)
      with res w' stored uid u ans show ?thesis
        by (auto simp add: own_def logged_in_def intro!: bexI [of _ "apply_patch patch d"])
    qed
  qed
qed

theorem updateProfile_store_witness:
  "updateProfile (example_profile Null) example_world =
     (Inr (example_stored Null), snd (updateProfile (example_profile Null) example_world)) \<and>
   auth_profile (snd (updateProfile (example_profile Null) example_world)) =
     Some (example_stored Null) \<and>
   updateProfile (example_profile Null)
     (example_world\<lparr>faults := [Some (PostgrestError ''offline'')]\<rparr>) =
     (Inl (PostgrestError ''offline''),
      snd (updateProfile (example_profile Null)
             (example_world\<lparr>faults := [Some (PostgrestError ''offline'')]\<rparr>))) \<and>
   \<not> answered (example_world\<lparr>faults := [Some (PostgrestError ''offline'')]\<rparr>) \<and>
   auth_profile (snd (updateProfile (example_profile Null)
             (example_world\<lparr>faults := [Some (PostgrestError ''offline'')]\<rparr>))) =
     auth_profile (example_world\<lparr>faults := [Some (PostgrestError ''offline'')]\<rparr>)"
proof -
  have f1: "fst (updateProfile (example_profile Null) example_world) = Inr (example_stored Null)"
    by (simp add: profile_defs example_defs)
  have h1: "updateProfile (example_profile Null) example_world =
     (Inr (example_stored Null), snd (updateProfile (example_profile Null) example_world))"
    by (simp add: f1 [symmetric])
  have f2: "fst (updateProfile (example_profile Null)
      (example_world\<lparr>faults := [Some (PostgrestError ''offline'')]\<rparr>)) =
      Inl (PostgrestError ''offline'')"
    by (simp add: profile_defs example_defs)
  have h2: "updateProfile (example_profile Null)
     (example_world\<lparr>faults := [Some (PostgrestError ''offline'')]\<rparr>) =
     (Inl (PostgrestError ''offline''),
      snd (updateProfile (example_profile Null)
             (example_world\<lparr>faults := [Some (PostgrestError ''offline'')]\<rparr>)))"
    by (simp add: f2 [symmetric])
  have na: "\<not> answered (example_world\<lparr>faults := [Some (PostgrestError ''offline'')]\<rparr>)"
    by (simp add: answered_def)
  from h1 h2 na updateProfile_store [OF h1] updateProfile_store [OF h2] show ?thesis
    by simp
qed

lemma updateProfile_Inr:
  assumes "updateProfile p w = (Inr r, w1)"
  shows "\<exists>u d. auth_user w = Some u \<and> \<not> falsy (u_email u) \<and> \<not> falsy (fullName p) \<and>
           filter (\<lambda>r. pr_user_id r = u_id u) (db_profiles w) = [d] \<and>
           auth_user w1 = Some u \<and>
           db_profiles w1 =
             map (\<lambda>x. if pr_user_id x = u_id u
                       then apply_patch \<lparr>patch_full_name = fullName p, patch_description = description p\<rparr> x
                       else x) (db_profiles w)"
proof -
  from assms obtain u where u: "auth_user w = Some u" "\<not> falsy (u_email u)" "\<not> falsy (fullName p)"
    by (auto simp add: updateProfile_def split: option.splits if_splits)
  with assms show ?thesis
    by (auto simp add: updateProfile_def update_profile_by_user remote_snd
        failed_def setProfileStore_def Let_def
        split: option.splits list.splits)
qed

text \<open>
  Claim C5 as stated fails: a profile without a description is updated, and the profile
  read back has the description that the row had before.
\<close>
theorem updateProfile_readProfile_counterexample:
  "fst (updateProfile (example_profile Undefined) example_world) =
     Inr (example_stored (Val ''old'')) \<and>
   fst (readProfile (snd (updateProfile (example_profile Undefined) example_world))) =
     Inr (example_stored (Val ''old'')) \<and>
   description (example_stored (Val ''old'')) \<noteq> description (example_profile Undefined)"
  by (simp add: profile_defs example_defs)

text \<open>
  Claim C5, amended. After a successful \<open>updateProfile\<close> of \<open>p\<close>, a \<open>readProfile\<close> that
  the server answers returns a profile with the full name of \<open>p\<close>, and with the
  description of \<open>p\<close> when \<open>p\<close> has one (\<open>null\<close> included). When the description of
  \<open>p\<close> is \<open>undefined\<close>, the update does not send it, and \<open>readProfile\<close> returns the
  description that the user's row had before.
\<close>
theorem updateProfile_readProfile:
  assumes "updateProfile p w = (Inr r, w1)" and "answered w1"
  shows "\<exists>q w2. readProfile w1 = (Inr q, w2) \<and> fullName q = fullName p \<and>
           (description p \<noteq> Undefined \<longrightarrow> description q = description p) \<and>
           (description p = Undefined \<longrightarrow>
              (\<exists>d\<in>set (db_profiles w).
                 Some (pr_user_id d) = map_option u_id (auth_user w) \<and>
                 description q = from_column (pr_description d)))"
proof -
  define patch where
    "patch = \<lparr>patch_full_name = fullName p, patch_description = description p\<rparr>"
  from updateProfile_Inr [OF assms(1)] obtain u d where
    u: "auth_user w = Some u" "\<not> falsy (u_email u)" "auth_user w1 = Some u" and
    name: "\<not> falsy (fullName p)" and
    d: "filter (\<lambda>r. pr_user_id r = u_id u) (db_profiles w) = [d]" and
    w1: "db_profiles w1 =
           map (\<lambda>x. if pr_user_id x = u_id u then apply_patch patch x else x) (db_profiles w)"
    unfolding patch_def by blast
  have "d \<in> set (filter (\<lambda>r. pr_user_id r = u_id u) (db_profiles w))"
    by (simp add: d)
  then have d': "d \<in> set (db_profiles w)" "pr_user_id d = u_id u"
    by simp_all
  from name obtain s where s: "fullName p = Val s"
    by (cases "fullName p") simp_all
  have own: "filter (\<lambda>r. pr_user_id r = u_id u) (db_profiles w1) = [apply_patch patch d]"
    by (simp add: w1 filter_updated d)
  define q where "q =
    \<lparr>email = from_column (pr_email (apply_patch patch d)),
     fullName = from_column (full_name (apply_patch patch d)),
     description = from_column (pr_description (apply_patch patch d))\<rparr>"
  have read: "\<exists>w2. readProfile w1 = (Inr q, w2)"
    using u assms(2)
    by (simp add: readProfile_def select_profile_by_user remote_answered own
        maybeSingle_def Let_def q_def)
  have full: "fullName q = fullName p"
    by (simp add: q_def apply_patch_def patch_def s)
  have descr: "description q = from_column (write_column (description p) (pr_description d))"
    by (simp add: q_def apply_patch_def patch_def)
  have set: "description p \<noteq> Undefined \<Longrightarrow> description q = description p"
    unfolding descr by (cases "description p") simp_all
  have unset: "description p = Undefined \<Longrightarrow>
      \<exists>d\<in>set (db_profiles w).
         Some (pr_user_id d) = map_option u_id (auth_user w) \<and>
         description q = from_column (pr_description d)"
    using d' u by (intro bexI [of _ d]) (simp_all add: descr)
  from read full set unset show ?thesis
    by blast
qed

theorem updateProfile_readProfile_witness:
  "updateProfile (example_profile (Val ''Hi'')) example_world =
     (Inr (example_stored (Val ''Hi'')),
      snd (updateProfile (example_profile (Val ''Hi'')) example_world)) \<and>
   answered (snd (updateProfile (example_profile (Val ''Hi'')) example_world)) \<and>
   (\<exists>q w2. readProfile (snd (updateProfile (example_profile (Val ''Hi'')) example_world)) =
        (Inr q, w2) \<and>
      fullName q = Val ''Ann'' \<and> description q = Val ''Hi'') \<and>
   updateProfile (example_profile Undefined) example_world =
     (Inr (example_stored (Val ''old'')),
      snd (updateProfile (example_profile Undefined) example_world)) \<and>
   answered (snd (updateProfile (example_profile Undefined) example_world)) \<and>
   (\<exists>q w2. readProfile (snd (updateProfile (example_profile Undefined) example_world)) =
        (Inr q, w2) \<and>
      fullName q = Val ''Ann'' \<and> description q = Val ''old'')"
proof -
  have f1: "fst (updateProfile (example_profile (Val ''Hi'')) example_world) =
      Inr (example_stored (Val ''Hi''))"
    by (simp add: profile_defs example_defs)
  have h1: "updateProfile (example_profile (Val ''Hi'')) example_world =
     (Inr (example_stored (Val ''Hi'')),
      snd (updateProfile (example_profile (Val ''Hi'')) example_world))"
    by (simp add: f1 [symmetric])
  have a1: "answered (snd (updateProfile (example_profile (Val ''Hi'')) example_world))"
    by (simp add: answered_def profile_defs example_defs)
  have f2: "fst (updateProfile (example_profile Undefined) example_world) =
      Inr (example_stored (Val ''old''))"
    by (simp add: profile_defs example_defs)
  have h2: "updateProfile (example_profile Undefined) example_world =
     (Inr (example_stored (Val ''old'')),
      snd (updateProfile (example_profile Undefined) example_world))"
    by (simp add: f2 [symmetric])
  have a2: "answered (snd (updateProfile (example_profile Undefined) example_world))"
    by (simp add: answered_def profile_defs example_defs)
  have rows: "db_profiles example_world =
      [\<lparr>pr_user_id = ''u1'', full_name = None, pr_description = Some ''old'',
        pr_email = Some ''ann@example.org''\<rparr>]"
    by (simp add: example_defs)
  from updateProfile_readProfile [OF h1 a1] have r1:
    "\<exists>q w2. readProfile (snd (updateProfile (example_profile (Val ''Hi'')) example_world)) =
        (Inr q, w2) \<and>
      fullName q = Val ''Ann'' \<and> description q = Val ''Hi''"
    by (auto simp add: example_profile_def)
  from updateProfile_readProfile [OF h2 a2] have r2:
    "\<exists>q w2. readProfile (snd (updateProfile (example_profile Undefined) example_world)) =
        (Inr q, w2) \<and>
      fullName q = Val ''Ann'' \<and> description q = Val ''old''"
    by (auto simp add: example_profile_def rows)
  from h1 a1 r1 h2 a2 r2 show ?thesis
    by blast
qed

end
